theory Spec2Isabelle
  imports Main "HOL-Library.AList"
begin

section \<open>Types, symbols and scopes\<close>

text \<open>
  The two listener classes of \<^verbatim>\<open>nimblesemantics.py\<close> are translated handler by handler.
  They work on three modules they import and that are not among the sources: the symbol
  table (\<^verbatim>\<open>PrimitiveType\<close>, \<^verbatim>\<open>FunctionType\<close>, \<^verbatim>\<open>Scope\<close>), the error log
  (\<^verbatim>\<open>ErrorLog\<close>, \<^verbatim>\<open>Category\<close>) and the parser with its tree walker.
\<close>

text \<open>
  Modelled from the spec: the primitive types, an enumeration of Int, Bool, String, Void
  and the sentinel ERROR. The members carry a \<open>T\<close> in front (\<open>Int\<close> is taken by HOL's
  notation for intersection).
\<close>

datatype PrimitiveType = TInt | TBool | TString | TVoid | TERROR

text \<open>
  Modelled from the spec: a function type is a sequence of parameter types and a return
  type, a symbol a name, a type, the parameter flag and the index of its declaration.
  \<^verbatim>\<open>exitFuncDef\<close> of the first pass builds the parameter list of a function type from
  \<^verbatim>\<open>param.TYPE()\<close>, the type tokens of the parameter definitions; a token is kept here
  as its text.
\<close>

datatype FunctionType = FunctionType (parameter_types: "string list") (result_type: PrimitiveType)

datatype stype = Prim PrimitiveType | Func FunctionType

record Symbol =
  sym_name :: string
  sym_type :: stype
  is_param :: bool
  sym_index :: nat

text \<open>
  The values the handlers store in the annotation dictionary \<^verbatim>\<open>type_of\<close>: a type, the
  symbol object itself (\<^verbatim>\<open>exitVariable\<close> stores what \<^verbatim>\<open>resolve_locally\<close> returns), or
  \<^verbatim>\<open>None\<close> (the return type of a scope that declares none).
\<close>

datatype pyval = PNone | PType stype | PSym Symbol

text \<open>Modelled from the spec: the categories of the error log, named as the source names them.\<close>

datatype Category =
    UNDEFINED_NAME | DUPLICATE_NAME | INVALID_CALL | INVALID_RETURN
  | ASSIGN_TO_WRONG_TYPE | CONDITION_NOT_BOOL | UNPRINTABLE_EXPRESSION
  | INVALID_NEGATION | INVALID_BINARY_OP

text \<open>
  Modelled from the spec: a scope has a name, an optional declared return type, a local
  symbol map, a map of named child scopes and a link to its enclosing scope, absent for
  the global scope only.
  Scopes refer to each other (a child to its enclosing scope, a scope to its children),
  and both passes mutate them through the cursor. They live in a store: the address of a
  scope is its position in the list \<open>scopes\<close>, a new scope is appended. The two
  dictionaries of a scope keep insertion order, as Python's do.
\<close>

record Scope =
  name :: string
  return_type :: "PrimitiveType option"
  enclosing_scope :: "nat option"
  child_scopes :: "(string \<times> nat) list"
  symbols :: "(string \<times> Symbol) list"

text \<open>
  What a listener object holds: the store, \<^verbatim>\<open>self.current_scope\<close> (\<open>None\<close> is Python's
  \<^verbatim>\<open>None\<close>), \<^verbatim>\<open>self.type_of\<close> keyed by the identity of a parse-tree node (a number),
  and the error log as the ordered list of its entries (node, category); the message text
  of an entry is left out, the exceptions that building it raises are not.
\<close>

record state =
  scopes :: "Scope list"
  current_scope :: "nat option"
  type_of :: "nat \<rightharpoonup> pyval"
  error_log :: "(nat \<times> Category) list"

text \<open>
  The exceptions of the Python code. \<open>DanglingScope\<close> is not one of them: it is the
  result of following an address outside the store, which no run from \<open>initial\<close> does.
  \<open>DuplicateChildScope\<close> is the failure of \<^verbatim>\<open>create_child_scope\<close>.
\<close>

datatype error = AttributeError | KeyError | DuplicateChildScope | DanglingScope

definition scope_at :: "state \<Rightarrow> nat \<Rightarrow> Scope option" where
  "scope_at s a = (if a < length (scopes s) then Some (scopes s ! a) else None)"

definition set_scope :: "nat \<Rightarrow> Scope \<Rightarrow> state \<Rightarrow> state" where
  "set_scope a sc s = s\<lparr>scopes := (scopes s)[a := sc]\<rparr>"

text \<open>
  \<open>deref\<close> is what every attribute access on a scope reference does first:
  \<^verbatim>\<open>None.attr\<close> raises AttributeError.
\<close>

definition deref :: "state \<Rightarrow> nat option \<Rightarrow> error + (nat \<times> Scope)" where
  "deref s r =
     (case r of
        None \<Rightarrow> Inl AttributeError
      | Some a \<Rightarrow> (case scope_at s a of None \<Rightarrow> Inl DanglingScope | Some sc \<Rightarrow> Inr (a, sc)))"

text \<open>
  Modelled from the spec: the operations of \<^verbatim>\<open>Scope\<close> (module \<^verbatim>\<open>symboltable\<close>, not
  among the sources). \<^verbatim>\<open>createChildScope\<close> creates and links a new child and fails if a
  sibling already uses the name; \<^verbatim>\<open>define\<close> (here \<open>scope_define\<close>, \<open>define\<close> being a
  keyword) adds a symbol to the scope's local map, its index the declaration order, and
  leaves the check for duplicates to the caller; \<^verbatim>\<open>resolveLocally\<close> looks only in the
  local map;
  \<^verbatim>\<open>childScopeNamed\<close> looks a child up by name (a name that is not there is a KeyError
  of the dictionary); \<^verbatim>\<open>parameters\<close> are the symbols flagged as parameters, in
  declaration order.
\<close>

definition create_child_scope :: "nat \<Rightarrow> string \<Rightarrow> PrimitiveType \<Rightarrow> state \<Rightarrow> error + (nat \<times> state)" where
  "create_child_scope a nm rt s =
     (case scope_at s a of
        None \<Rightarrow> Inl DanglingScope
      | Some sc \<Rightarrow>
          (case map_of (child_scopes sc) nm of
             Some _ \<Rightarrow> Inl DuplicateChildScope
           | None \<Rightarrow>
               let new = length (scopes s);
                   child = \<lparr>name = nm, return_type = Some rt, enclosing_scope = Some a,
                            child_scopes = [], symbols = []\<rparr>;
                   s' = set_scope a (sc\<lparr>child_scopes := child_scopes sc @ [(nm, new)]\<rparr>) s
               in Inr (new, s'\<lparr>scopes := scopes s' @ [child]\<rparr>)))"

definition scope_define :: "nat \<Rightarrow> string \<Rightarrow> stype \<Rightarrow> bool \<Rightarrow> state \<Rightarrow> error + state" where
  "scope_define a nm ty par s =
     (case scope_at s a of
        None \<Rightarrow> Inl DanglingScope
      | Some sc \<Rightarrow>
          let symb = \<lparr>sym_name = nm, sym_type = ty, is_param = par,
                      sym_index = length (symbols sc)\<rparr>
           in Inr (set_scope a (sc\<lparr>symbols := AList.update nm symb (symbols sc)\<rparr>) s))"

definition resolve_locally :: "Scope \<Rightarrow> string \<Rightarrow> Symbol option" where
  "resolve_locally sc nm = map_of (symbols sc) nm"

definition child_scope_named :: "Scope \<Rightarrow> string \<Rightarrow> error + nat" where
  "child_scope_named sc nm =
     (case map_of (child_scopes sc) nm of None \<Rightarrow> Inl KeyError | Some a \<Rightarrow> Inr a)"

definition parameters :: "Scope \<Rightarrow> Symbol list" where
  "parameters sc = filter is_param (map snd (symbols sc))"

text \<open>\<^verbatim>\<open>self.type_of[node]\<close>: a node without an entry raises KeyError.\<close>

definition lookup_type :: "state \<Rightarrow> nat \<Rightarrow> error + pyval" where
  "lookup_type s n = (case type_of s n of None \<Rightarrow> Inl KeyError | Some v \<Rightarrow> Inr v)"

definition set_type :: "nat \<Rightarrow> pyval \<Rightarrow> state \<Rightarrow> state" where
  "set_type n v s = s\<lparr>type_of := (type_of s)(n \<mapsto> v)\<rparr>"

text \<open>\<^verbatim>\<open>self.error_log.add(ctx, category, message)\<close>, the message already built.\<close>

definition log_add :: "nat \<Rightarrow> Category \<Rightarrow> state \<Rightarrow> state" where
  "log_add n c s = s\<lparr>error_log := error_log s @ [(n, c)]\<rparr>"

text \<open>
  \<^verbatim>\<open>self.type_of[e] == PrimitiveType.T\<close> inside an \<^verbatim>\<open>and\<close> chain. Python evaluates the
  chain from the left and stops at the first false operand, so a later lookup is only
  made (and only raises) when everything before it held.
\<close>

definition type_is :: "state \<Rightarrow> nat \<Rightarrow> PrimitiveType \<Rightarrow> error + bool" where
  "type_is s n T = (case lookup_type s n of Inl e \<Rightarrow> Inl e | Inr v \<Rightarrow> Inr (v = PType (Prim T)))"

definition py_and :: "error + bool \<Rightarrow> error + bool \<Rightarrow> error + bool" where
  "py_and a b = (case a of Inl e \<Rightarrow> Inl e | Inr x \<Rightarrow> if x then b else Inr False)"

definition py_if :: "error + bool \<Rightarrow> error + 'a \<Rightarrow> error + 'a \<Rightarrow> error + 'a" where
  "py_if c t f = (case c of Inl e \<Rightarrow> Inl e | Inr x \<Rightarrow> if x then t else f)"

section \<open>Expression handlers of the second pass\<close>

definition exitIntLiteral :: "nat \<Rightarrow> state \<Rightarrow> error + state" where
  "exitIntLiteral ctx s = Inr (set_type ctx (PType (Prim TInt)) s)"

definition exitStringLiteral :: "nat \<Rightarrow> state \<Rightarrow> error + state" where
  "exitStringLiteral ctx s = Inr (set_type ctx (PType (Prim TString)) s)"

definition exitBoolLiteral :: "nat \<Rightarrow> state \<Rightarrow> error + state" where
  "exitBoolLiteral ctx s = Inr (set_type ctx (PType (Prim TBool)) s)"

text \<open>
  In \<^verbatim>\<open>exitNeg\<close> the message of the fault reads \<^verbatim>\<open>self.type_of[ctx].name\<close> after
  \<^verbatim>\<open>type_of[ctx]\<close> has been set to ERROR, so building it raises nothing.
\<close>

definition exitNeg :: "nat \<Rightarrow> string \<Rightarrow> nat \<Rightarrow> state \<Rightarrow> error + state" where
  "exitNeg ctx op e s =
     py_if (py_and (Inr (op = ''-'')) (type_is s e TInt))
       (Inr (set_type ctx (PType (Prim TInt)) s))
       (py_if (py_and (Inr (op = ''!'')) (type_is s e TBool))
          (Inr (set_type ctx (PType (Prim TBool)) s))
          (Inr (log_add ctx INVALID_NEGATION (set_type ctx (PType (Prim TERROR)) s))))"

definition exitParens :: "nat \<Rightarrow> nat \<Rightarrow> state \<Rightarrow> error + state" where
  "exitParens ctx e s =
     (case lookup_type s e of Inl x \<Rightarrow> Inl x | Inr v \<Rightarrow> Inr (set_type ctx v s))"

definition exitMulDiv :: "nat \<Rightarrow> string \<Rightarrow> nat \<Rightarrow> nat \<Rightarrow> state \<Rightarrow> error + state" where
  "exitMulDiv ctx op e0 e1 s =
     py_if (py_and (type_is s e0 TInt) (py_and (type_is s e1 TInt) (Inr (op = ''*'' \<or> op = ''/''))))
       (Inr (set_type ctx (PType (Prim TInt)) s))
       (Inr (log_add ctx INVALID_BINARY_OP (set_type ctx (PType (Prim TERROR)) s)))"

definition exitAddSub :: "nat \<Rightarrow> string \<Rightarrow> nat \<Rightarrow> nat \<Rightarrow> state \<Rightarrow> error + state" where
  "exitAddSub ctx op e0 e1 s =
     py_if (py_and (type_is s e0 TInt) (py_and (type_is s e1 TInt) (Inr (op = ''+'' \<or> op = ''-''))))
       (Inr (set_type ctx (PType (Prim TInt)) s))
       (py_if (py_and (type_is s e0 TString) (py_and (type_is s e1 TString) (Inr (op = ''+''))))
          (Inr (set_type ctx (PType (Prim TString)) s))
          (Inr (log_add ctx INVALID_BINARY_OP (set_type ctx (PType (Prim TERROR)) s))))"

definition exitCompare :: "nat \<Rightarrow> string \<Rightarrow> nat \<Rightarrow> nat \<Rightarrow> state \<Rightarrow> error + state" where
  "exitCompare ctx op e0 e1 s =
     py_if (py_and (type_is s e0 TBool) (py_and (type_is s e1 TBool) (Inr (op = ''==''))))
       (Inr (set_type ctx (PType (Prim TBool)) s))
       (py_if (py_and (type_is s e0 TInt) (py_and (type_is s e1 TInt) (Inr (op = ''==''))))
          (Inr (set_type ctx (PType (Prim TBool)) s))
          (py_if (py_and (type_is s e0 TInt) (py_and (type_is s e1 TInt) (Inr (op = ''<''))))
             (Inr (set_type ctx (PType (Prim TBool)) s))
             (py_if (py_and (type_is s e0 TInt) (py_and (type_is s e1 TInt) (Inr (op = ''<=''))))
                (Inr (set_type ctx (PType (Prim TBool)) s))
                (Inr (log_add ctx INVALID_BINARY_OP (set_type ctx (PType (Prim TERROR)) s))))))"

text \<open>
  \<^verbatim>\<open>exitVariable\<close>: a symbol object is truthy, so \<^verbatim>\<open>not resolve_locally(..)\<close> holds
  exactly when the lookup returns \<^verbatim>\<open>None\<close>. On success the handler stores the result of
  \<^verbatim>\<open>resolve_locally\<close>, the symbol.
\<close>

definition exitVariable :: "nat \<Rightarrow> string \<Rightarrow> state \<Rightarrow> error + state" where
  "exitVariable ctx x s =
     (case deref s (current_scope s) of
        Inl e \<Rightarrow> Inl e
      | Inr (a, sc) \<Rightarrow>
          (case resolve_locally sc x of
             None \<Rightarrow> Inr (log_add ctx UNDEFINED_NAME (set_type ctx (PType (Prim TERROR)) s))
           | Some symb \<Rightarrow> Inr (set_type ctx (PSym symb) s)))"

section \<open>Statement handlers of the second pass\<close>

definition py_not :: "error + bool \<Rightarrow> error + bool" where
  "py_not a = (case a of Inl e \<Rightarrow> Inl e | Inr x \<Rightarrow> Inr (\<not> x))"

text \<open>
  \<^verbatim>\<open>exitReturn\<close>. With an expression the three tests form one \<^verbatim>\<open>if/elif/elif\<close> chain,
  each of the form \<^verbatim>\<open>not (return_type == T and type_of[expr] == T)\<close>; the first test
  that holds logs the fault and ends the chain. The last statement of the handler moves
  the cursor to the enclosing scope.
\<close>

definition exitReturn :: "nat \<Rightarrow> nat option \<Rightarrow> state \<Rightarrow> error + state" where
  "exitReturn ctx eo s =
     (case deref s (current_scope s) of
        Inl x \<Rightarrow> Inl x
      | Inr (a, sc) \<Rightarrow>
          (case
             (case eo of
                Some e \<Rightarrow>
                  py_if (py_not (py_and (Inr (return_type sc = Some TInt)) (type_is s e TInt)))
                    (Inr (log_add ctx INVALID_RETURN s))
                    (py_if (py_not (py_and (Inr (return_type sc = Some TBool)) (type_is s e TBool)))
                       (Inr (log_add ctx INVALID_RETURN s))
                       (py_if (py_not (py_and (Inr (return_type sc = Some TString)) (type_is s e TString)))
                          (Inr (log_add ctx INVALID_RETURN s))
                          (Inr s)))
              | None \<Rightarrow>
                  if return_type sc \<noteq> Some TVoid then Inr (log_add ctx INVALID_RETURN s)
                  else Inr s)
           of
             Inl x \<Rightarrow> Inl x
           | Inr s1 \<Rightarrow> Inr (s1\<lparr>current_scope := enclosing_scope sc\<rparr>)))"

text \<open>\<^verbatim>\<open>self.current_scope.define(name, type, is_param)\<close>.\<close>

definition define_current :: "string \<Rightarrow> stype \<Rightarrow> bool \<Rightarrow> state \<Rightarrow> error + state" where
  "define_current nm ty par s =
     (case deref s (current_scope s) of
        Inl x \<Rightarrow> Inl x
      | Inr (a, sc) \<Rightarrow> scope_define a nm ty par s)"

text \<open>
  The attribute \<^verbatim>\<open>.name\<close> of a stored value: a member of the enumeration and a symbol
  have one, \<^verbatim>\<open>None\<close> and a function type have not.
\<close>

fun has_name :: "pyval \<Rightarrow> bool" where
  "has_name (PType (Prim T)) = True"
| "has_name (PSym y) = True"
| "has_name v = False"

text \<open>
  The second half of \<^verbatim>\<open>exitVarDec\<close>, after the symbol has been defined: with an
  initialiser, \<^verbatim>\<open>x = resolve_locally(ID)\<close> and \<^verbatim>\<open>x.type != type_of[expr]\<close>.
\<close>

definition check_initialiser :: "nat \<Rightarrow> string \<Rightarrow> nat option \<Rightarrow> state \<Rightarrow> error + state" where
  "check_initialiser ctx x eo s =
     (case eo of
        None \<Rightarrow> Inr s
      | Some e \<Rightarrow>
          (case deref s (current_scope s) of
             Inl err \<Rightarrow> Inl err
           | Inr (a, sc) \<Rightarrow>
               (case resolve_locally sc x of
                  None \<Rightarrow> Inl AttributeError
                | Some symb \<Rightarrow>
                    (case lookup_type s e of
                       Inl err \<Rightarrow> Inl err
                     | Inr v \<Rightarrow>
                         if PType (sym_type symb) \<noteq> v
                         then Inr (log_add ctx ASSIGN_TO_WRONG_TYPE s)
                         else Inr s))))"

definition define_and_check ::
  "nat \<Rightarrow> string \<Rightarrow> PrimitiveType \<Rightarrow> nat option \<Rightarrow> state \<Rightarrow> error + state" where
  "define_and_check ctx x T eo s =
     (case define_current x (Prim T) False s of
        Inl err \<Rightarrow> Inl err
      | Inr s1 \<Rightarrow> check_initialiser ctx x eo s1)"

text \<open>
  \<^verbatim>\<open>exitVarDec\<close>. For a type name that is none of the three, the message of the fault is
  built from \<^verbatim>\<open>self.type_of[ctx].name\<close>, \<^verbatim>\<open>ctx\<close> being the declaration node itself, before
  \<^verbatim>\<open>error_log.add\<close> is called; the handler then returns.
\<close>

definition exitVarDec :: "nat \<Rightarrow> string \<Rightarrow> string \<Rightarrow> nat option \<Rightarrow> state \<Rightarrow> error + state" where
  "exitVarDec ctx x ty eo s =
     (case deref s (current_scope s) of
        Inl err \<Rightarrow> Inl err
      | Inr (a, sc) \<Rightarrow>
          (case resolve_locally sc x of
             Some symb \<Rightarrow> Inr (log_add ctx DUPLICATE_NAME s)
           | None \<Rightarrow>
               if ty = ''Int'' then define_and_check ctx x TInt eo s
               else if ty = ''String'' then define_and_check ctx x TString eo s
               else if ty = ''Bool'' then define_and_check ctx x TBool eo s
               else
                 (case lookup_type s ctx of
                    Inl err \<Rightarrow> Inl err
                  | Inr v \<Rightarrow>
                      if has_name v then Inr (log_add ctx ASSIGN_TO_WRONG_TYPE s)
                      else Inl AttributeError)))"

definition exitAssignment :: "nat \<Rightarrow> string \<Rightarrow> nat \<Rightarrow> state \<Rightarrow> error + state" where
  "exitAssignment ctx x e s =
     (case deref s (current_scope s) of
        Inl err \<Rightarrow> Inl err
      | Inr (a, sc) \<Rightarrow>
          (case resolve_locally sc x of
             None \<Rightarrow> Inr (log_add ctx UNDEFINED_NAME (set_type ctx (PType (Prim TERROR)) s))
           | Some symb \<Rightarrow>
               (case lookup_type s e of
                  Inl err \<Rightarrow> Inl err
                | Inr v \<Rightarrow>
                    if PType (sym_type symb) \<noteq> v
                    then Inr (log_add ctx ASSIGN_TO_WRONG_TYPE (set_type ctx (PType (Prim TERROR)) s))
                    else Inr s)))"

definition exitWhile :: "nat \<Rightarrow> nat \<Rightarrow> state \<Rightarrow> error + state" where
  "exitWhile ctx e s =
     (case lookup_type s e of
        Inl err \<Rightarrow> Inl err
      | Inr v \<Rightarrow>
          if v \<noteq> PType (Prim TBool)
          then Inr (log_add ctx CONDITION_NOT_BOOL (set_type ctx (PType (Prim TERROR)) s))
          else Inr s)"

definition exitIf :: "nat \<Rightarrow> nat \<Rightarrow> state \<Rightarrow> error + state" where
  "exitIf ctx e s =
     (case lookup_type s e of
        Inl err \<Rightarrow> Inl err
      | Inr v \<Rightarrow>
          if v \<noteq> PType (Prim TBool)
          then Inr (log_add ctx CONDITION_NOT_BOOL (set_type ctx (PType (Prim TERROR)) s))
          else Inr s)"

text \<open>
  Modelled from the spec: the truth value of a member of \<^verbatim>\<open>PrimitiveType\<close> (module
  \<^verbatim>\<open>symboltable\<close>, not among the sources). The type is an enumeration, and every member
  of a Python enumeration is truthy.
\<close>

definition truthy :: "PrimitiveType \<Rightarrow> bool" where
  "truthy T = True"

text \<open>
  \<^verbatim>\<open>exitPrint\<close> tests \<^verbatim>\<open>self.type_of[ctx.expr()] == PrimitiveType.ERROR or PrimitiveType.Void\<close>:
  the right operand of \<^verbatim>\<open>or\<close> is the member \<^verbatim>\<open>Void\<close> itself, not a comparison with it.
\<close>

definition exitPrint :: "nat \<Rightarrow> nat \<Rightarrow> state \<Rightarrow> error + state" where
  "exitPrint ctx e s =
     (case lookup_type s e of
        Inl err \<Rightarrow> Inl err
      | Inr v \<Rightarrow>
          if v = PType (Prim TERROR) \<or> truthy TVoid
          then Inr (log_add ctx UNPRINTABLE_EXPRESSION (set_type ctx (PType (Prim TERROR)) s))
          else Inr s)"

section \<open>Function calls\<close>

text \<open>
  \<^verbatim>\<open>exitFuncCall\<close> reads its node through \<^verbatim>\<open>ctx.expr()\<close>, the list of the argument nodes
  (the handler takes its \<^verbatim>\<open>len\<close>), and \<^verbatim>\<open>ctx.expr(i)\<close>, the \<open>i\<close>-th of them or \<^verbatim>\<open>None\<close>.

  \<^item> \<^verbatim>\<open>params = [self.current_scope.parameters()]\<close> is a list of one element, the list of
    the parameters of the \<^emph>\<open>current\<close> scope. So \<^verbatim>\<open>params[param_index]\<close> is a list of
    symbols, and \<^verbatim>\<open>params[param_index].type\<close> raises AttributeError once the left operand
    of \<^verbatim>\<open>!=\<close> has been evaluated; that operand is \<^verbatim>\<open>self.type_of[ctx.expr(param_index)]\<close>,
    a KeyError when the argument is missing or has no entry.
  \<^item> Both messages are built from \<^verbatim>\<open>ctx.expr().getText()\<close>: a Python list has no
    \<^verbatim>\<open>getText\<close>, so building the message raises AttributeError before
    \<^verbatim>\<open>error_log.add\<close> is called.
\<close>

fun check_params :: "nat list \<Rightarrow> Symbol list list \<Rightarrow> nat \<Rightarrow> state \<Rightarrow> error + unit" where
  "check_params exprs [] param_index s = Inr ()"
| "check_params exprs (p # ps) param_index s =
     (if param_index < length exprs
      then (case lookup_type s (exprs ! param_index) of
              Inl err \<Rightarrow> Inl err
            | Inr v \<Rightarrow> Inl AttributeError)
      else Inl KeyError)"

text \<open>
  The loop over \<^verbatim>\<open>self.current_scope.child_scopes.values()\<close>. The result says whether the
  handler has returned from inside the loop (\<open>True\<close>) or the loop has ended (\<open>False\<close>).
  The first branch of the body sets the type and goes on with the loop.
\<close>

fun funcCall_loop ::
  "nat \<Rightarrow> string \<Rightarrow> nat list \<Rightarrow> Scope \<Rightarrow> nat list \<Rightarrow> state \<Rightarrow> error + (bool \<times> state)" where
  "funcCall_loop ctx f exprs cur [] s = Inr (False, s)"
| "funcCall_loop ctx f exprs cur (c # cs) s =
     (case scope_at s c of
        None \<Rightarrow> Inl DanglingScope
      | Some scope \<Rightarrow>
          if f = name scope then
            (let params = [parameters cur] in
             if exprs = [] \<and> length params = 0 then
               (case child_scope_named cur f of
                  Inl err \<Rightarrow> Inl err
                | Inr d \<Rightarrow>
                    (case scope_at s d of
                       None \<Rightarrow> Inl DanglingScope
                     | Some callee \<Rightarrow>
                         funcCall_loop ctx f exprs cur cs
                           (set_type ctx (case return_type callee of
                                            None \<Rightarrow> PNone | Some T \<Rightarrow> PType (Prim T)) s)))
             else if length exprs = length (parameters cur) then
               (case check_params exprs [parameters cur] 0 s of
                  Inl err \<Rightarrow> Inl err
                | Inr u \<Rightarrow>
                    (case child_scope_named cur f of
                       Inl err \<Rightarrow> Inl err
                     | Inr d \<Rightarrow>
                         (case scope_at s d of
                            None \<Rightarrow> Inl DanglingScope
                          | Some callee \<Rightarrow>
                              Inr (True, set_type ctx (case return_type callee of
                                                         None \<Rightarrow> PNone
                                                       | Some T \<Rightarrow> PType (Prim T)) s))))
             else funcCall_loop ctx f exprs cur cs s)
          else funcCall_loop ctx f exprs cur cs s)"

definition exitFuncCall :: "nat \<Rightarrow> string \<Rightarrow> nat list \<Rightarrow> state \<Rightarrow> error + state" where
  "exitFuncCall ctx f exprs s =
     (case deref s (current_scope s) of
        Inl err \<Rightarrow> Inl err
      | Inr (a, cur) \<Rightarrow>
          (case funcCall_loop ctx f exprs cur (map snd (child_scopes cur)) s of
             Inl err \<Rightarrow> Inl err
           | Inr (returned, s1) \<Rightarrow> if returned then Inr s1 else Inl AttributeError))"

section \<open>Scope handlers of the two passes\<close>

text \<open>
  The four handlers both listener classes define carry the name of their class:
  \<open>DefineScopesAndSymbols\<close> is the first pass, \<open>InferTypesAndCheckConstraints\<close> the second.
\<close>

definition DefineScopesAndSymbols_enterMain :: "state \<Rightarrow> error + state" where
  "DefineScopesAndSymbols_enterMain s =
     (case deref s (current_scope s) of
        Inl err \<Rightarrow> Inl err
      | Inr (a, sc) \<Rightarrow>
          (case create_child_scope a ''$main'' TVoid s of
             Inl err \<Rightarrow> Inl err
           | Inr (new, s1) \<Rightarrow> Inr (s1\<lparr>current_scope := Some new\<rparr>)))"

definition DefineScopesAndSymbols_exitMain :: "state \<Rightarrow> error + state" where
  "DefineScopesAndSymbols_exitMain s =
     (case deref s (current_scope s) of
        Inl err \<Rightarrow> Inl err
      | Inr (a, sc) \<Rightarrow> Inr (s\<lparr>current_scope := enclosing_scope sc\<rparr>))"

definition enter_child :: "string \<Rightarrow> PrimitiveType \<Rightarrow> state \<Rightarrow> error + state" where
  "enter_child f T s =
     (case deref s (current_scope s) of
        Inl err \<Rightarrow> Inl err
      | Inr (a, sc) \<Rightarrow>
          (case create_child_scope a f T s of
             Inl err \<Rightarrow> Inl err
           | Inr (new, s1) \<Rightarrow> Inr (s1\<lparr>current_scope := Some new\<rparr>)))"

text \<open>
  \<^verbatim>\<open>enterFuncDef\<close> of the first pass: \<open>ty\<close> is the text of the return-type token,
  \<open>None\<close> when the definition has none. A token that is none of the three names opens no
  scope.
\<close>

definition DefineScopesAndSymbols_enterFuncDef :: "string \<Rightarrow> string option \<Rightarrow> state \<Rightarrow> error + state" where
  "DefineScopesAndSymbols_enterFuncDef f ty s =
     (case ty of
        Some t \<Rightarrow>
          if t = ''Int'' then enter_child f TInt s
          else if t = ''Bool'' then enter_child f TBool s
          else if t = ''String'' then enter_child f TString s
          else Inr s
      | None \<Rightarrow> enter_child f TVoid s)"

text \<open>\<^verbatim>\<open>self.current_scope.enclosing_scope.define(name, type)\<close>.\<close>

definition define_enclosing :: "string \<Rightarrow> stype \<Rightarrow> state \<Rightarrow> error + state" where
  "define_enclosing nm ty s =
     (case deref s (current_scope s) of
        Inl err \<Rightarrow> Inl err
      | Inr (a, sc) \<Rightarrow>
          (case deref s (enclosing_scope sc) of
             Inl err \<Rightarrow> Inl err
           | Inr (b, en) \<Rightarrow> scope_define b nm ty False s))"

text \<open>
  \<^verbatim>\<open>exitFuncDef\<close> of the first pass; \<open>tys\<close> are the type tokens of the parameter
  definitions. With one of the three return types the function type is defined through
  \<^verbatim>\<open>self.current_scope.enclosing_scope\<close>, without a return type through
  \<^verbatim>\<open>self.current_scope\<close>.

  For a return type that is none of the three, the message of the fault is built from
  \<^verbatim>\<open>ctx.expr().getText()\<close> before \<^verbatim>\<open>error_log.add\<close> is called. The node is a function
  definition: its children are the identifier, the parameter definitions, the type and
  the body, and it has no accessor \<^verbatim>\<open>expr\<close>, so building the message raises
  AttributeError and nothing is logged.
\<close>

definition DefineScopesAndSymbols_exitFuncDef ::
  "nat \<Rightarrow> string \<Rightarrow> string list \<Rightarrow> string option \<Rightarrow> state \<Rightarrow> error + state" where
  "DefineScopesAndSymbols_exitFuncDef ctx f tys ty s =
     (case
        (case ty of
           Some t \<Rightarrow>
             if t = ''Int'' then define_enclosing f (Func (FunctionType tys TInt)) s
             else if t = ''Bool'' then define_enclosing f (Func (FunctionType tys TBool)) s
             else if t = ''String'' then define_enclosing f (Func (FunctionType tys TString)) s
             else Inl AttributeError
         | None \<Rightarrow> define_current f (Func (FunctionType tys TVoid)) False s)
      of
        Inl err \<Rightarrow> Inl err
      | Inr s1 \<Rightarrow>
          (case deref s1 (current_scope s1) of
             Inl err \<Rightarrow> Inl err
           | Inr (a, sc) \<Rightarrow> Inr (s1\<lparr>current_scope := enclosing_scope sc\<rparr>)))"

definition enter_named :: "string \<Rightarrow> state \<Rightarrow> error + state" where
  "enter_named nm s =
     (case deref s (current_scope s) of
        Inl err \<Rightarrow> Inl err
      | Inr (a, sc) \<Rightarrow>
          (case child_scope_named sc nm of
             Inl err \<Rightarrow> Inl err
           | Inr c \<Rightarrow> Inr (s\<lparr>current_scope := Some c\<rparr>)))"

definition InferTypesAndCheckConstraints_enterMain :: "state \<Rightarrow> error + state" where
  "InferTypesAndCheckConstraints_enterMain s = enter_named ''$main'' s"

definition InferTypesAndCheckConstraints_exitMain :: "state \<Rightarrow> error + state" where
  "InferTypesAndCheckConstraints_exitMain s =
     (case deref s (current_scope s) of
        Inl err \<Rightarrow> Inl err
      | Inr (a, sc) \<Rightarrow> Inr (s\<lparr>current_scope := enclosing_scope sc\<rparr>))"

definition InferTypesAndCheckConstraints_enterFuncDef :: "string \<Rightarrow> state \<Rightarrow> error + state" where
  "InferTypesAndCheckConstraints_enterFuncDef f s = enter_named f s"

text \<open>
  \<^verbatim>\<open>exitFuncDef\<close> of the second pass: the loop over the parameter definitions (each a
  pair of identifier and type token), then the step to the enclosing scope.
\<close>

fun define_parameters :: "(string \<times> string) list \<Rightarrow> state \<Rightarrow> error + state" where
  "define_parameters [] s = Inr s"
| "define_parameters ((x, ty) # ps) s =
     (case
        (if ty = ''Int'' then define_current x (Prim TInt) True s
         else if ty = ''Bool'' then define_current x (Prim TBool) True s
         else if ty = ''String'' then define_current x (Prim TString) True s
         else Inr s)
      of
        Inl err \<Rightarrow> Inl err
      | Inr s1 \<Rightarrow> define_parameters ps s1)"

definition InferTypesAndCheckConstraints_exitFuncDef ::
  "(string \<times> string) list \<Rightarrow> state \<Rightarrow> error + state" where
  "InferTypesAndCheckConstraints_exitFuncDef ps s =
     (case define_parameters ps s of
        Inl err \<Rightarrow> Inl err
      | Inr s1 \<Rightarrow>
          (case deref s1 (current_scope s1) of
             Inl err \<Rightarrow> Inl err
           | Inr (a, sc) \<Rightarrow> Inr (s1\<lparr>current_scope := enclosing_scope sc\<rparr>)))"

section \<open>The parse tree and the two walks\<close>

text \<open>
  Modelled from the spec: the parse tree and its depth-first walk (the parser module
  \<^verbatim>\<open>nimble\<close> and the helper that runs the two passes are not among the sources). The
  node kinds are those of the specification's external interface; every node the
  handlers log or annotate carries its identity, a number, and the accessors the handlers
  use: identifier text, operator text, type token, operands. A variable declaration
  stands among the statements of a body. The walker visits the children of a node from
  left to right and calls the exit handler of the node after them, the enter handler
  before them.
\<close>

datatype expr =
    IntLiteral nat string
  | StringLiteral nat string
  | BoolLiteral nat string
  | Parens nat expr
  | Neg nat string expr
  | MulDiv nat string expr expr
  | AddSub nat string expr expr
  | Compare nat string expr expr
  | Variable nat string
  | FuncCall nat string "expr list"

datatype stmt =
    VarDec nat string string "expr option"
  | Assignment nat string expr
  | While nat expr "stmt list"
  | If nat expr "stmt list" "stmt list"
  | Print nat expr
  | Return nat "expr option"
  | FuncCallStmt nat string "expr list"

datatype funcDef = FuncDef nat string "(string \<times> string) list" "string option" "stmt list"

datatype script = Script "funcDef list" "stmt list"

fun node :: "expr \<Rightarrow> nat" where
  "node (IntLiteral n t) = n"
| "node (StringLiteral n t) = n"
| "node (BoolLiteral n t) = n"
| "node (Parens n e) = n"
| "node (Neg n op e) = n"
| "node (MulDiv n op a b) = n"
| "node (AddSub n op a b) = n"
| "node (Compare n op a b) = n"
| "node (Variable n x) = n"
| "node (FuncCall n f es) = n"

fun walk_expr :: "expr \<Rightarrow> state \<Rightarrow> error + state"
  and walk_exprs :: "expr list \<Rightarrow> state \<Rightarrow> error + state" where
  "walk_expr (IntLiteral n t) s = exitIntLiteral n s"
| "walk_expr (StringLiteral n t) s = exitStringLiteral n s"
| "walk_expr (BoolLiteral n t) s = exitBoolLiteral n s"
| "walk_expr (Parens n e) s =
     (case walk_expr e s of Inl err \<Rightarrow> Inl err | Inr s1 \<Rightarrow> exitParens n (node e) s1)"
| "walk_expr (Neg n op e) s =
     (case walk_expr e s of Inl err \<Rightarrow> Inl err | Inr s1 \<Rightarrow> exitNeg n op (node e) s1)"
| "walk_expr (MulDiv n op a b) s =
     (case walk_expr a s of
        Inl err \<Rightarrow> Inl err
      | Inr s1 \<Rightarrow>
          (case walk_expr b s1 of
             Inl err \<Rightarrow> Inl err
           | Inr s2 \<Rightarrow> exitMulDiv n op (node a) (node b) s2))"
| "walk_expr (AddSub n op a b) s =
     (case walk_expr a s of
        Inl err \<Rightarrow> Inl err
      | Inr s1 \<Rightarrow>
          (case walk_expr b s1 of
             Inl err \<Rightarrow> Inl err
           | Inr s2 \<Rightarrow> exitAddSub n op (node a) (node b) s2))"
| "walk_expr (Compare n op a b) s =
     (case walk_expr a s of
        Inl err \<Rightarrow> Inl err
      | Inr s1 \<Rightarrow>
          (case walk_expr b s1 of
             Inl err \<Rightarrow> Inl err
           | Inr s2 \<Rightarrow> exitCompare n op (node a) (node b) s2))"
| "walk_expr (Variable n x) s = exitVariable n x s"
| "walk_expr (FuncCall n f es) s =
     (case walk_exprs es s of
        Inl err \<Rightarrow> Inl err
      | Inr s1 \<Rightarrow> exitFuncCall n f (map node es) s1)"
| "walk_exprs [] s = Inr s"
| "walk_exprs (e # es) s =
     (case walk_expr e s of Inl err \<Rightarrow> Inl err | Inr s1 \<Rightarrow> walk_exprs es s1)"

definition walk_opt :: "expr option \<Rightarrow> state \<Rightarrow> error + state" where
  "walk_opt eo s = (case eo of None \<Rightarrow> Inr s | Some e \<Rightarrow> walk_expr e s)"

fun walk_stmt :: "stmt \<Rightarrow> state \<Rightarrow> error + state"
  and walk_stmts :: "stmt list \<Rightarrow> state \<Rightarrow> error + state" where
  "walk_stmt (VarDec n x ty eo) s =
     (case walk_opt eo s of
        Inl err \<Rightarrow> Inl err
      | Inr s1 \<Rightarrow> exitVarDec n x ty (map_option node eo) s1)"
| "walk_stmt (Assignment n x e) s =
     (case walk_expr e s of Inl err \<Rightarrow> Inl err | Inr s1 \<Rightarrow> exitAssignment n x (node e) s1)"
| "walk_stmt (While n e body) s =
     (case walk_expr e s of
        Inl err \<Rightarrow> Inl err
      | Inr s1 \<Rightarrow>
          (case walk_stmts body s1 of
             Inl err \<Rightarrow> Inl err
           | Inr s2 \<Rightarrow> exitWhile n (node e) s2))"
| "walk_stmt (If n e thens elses) s =
     (case walk_expr e s of
        Inl err \<Rightarrow> Inl err
      | Inr s1 \<Rightarrow>
          (case walk_stmts thens s1 of
             Inl err \<Rightarrow> Inl err
           | Inr s2 \<Rightarrow>
               (case walk_stmts elses s2 of
                  Inl err \<Rightarrow> Inl err
                | Inr s3 \<Rightarrow> exitIf n (node e) s3)))"
| "walk_stmt (Print n e) s =
     (case walk_expr e s of Inl err \<Rightarrow> Inl err | Inr s1 \<Rightarrow> exitPrint n (node e) s1)"
| "walk_stmt (Return n eo) s =
     (case walk_opt eo s of
        Inl err \<Rightarrow> Inl err
      | Inr s1 \<Rightarrow> exitReturn n (map_option node eo) s1)"
| "walk_stmt (FuncCallStmt n f es) s =
     (case walk_exprs es s of
        Inl err \<Rightarrow> Inl err
      | Inr s1 \<Rightarrow> exitFuncCall n f (map node es) s1)"
| "walk_stmts [] s = Inr s"
| "walk_stmts (c # cs) s =
     (case walk_stmt c s of Inl err \<Rightarrow> Inl err | Inr s1 \<Rightarrow> walk_stmts cs s1)"

text \<open>The second pass over a function definition, the entry block and a script.\<close>

fun walk_funcDef :: "funcDef \<Rightarrow> state \<Rightarrow> error + state" where
  "walk_funcDef (FuncDef n f ps ty body) s =
     (case InferTypesAndCheckConstraints_enterFuncDef f s of
        Inl err \<Rightarrow> Inl err
      | Inr s1 \<Rightarrow>
          (case walk_stmts body s1 of
             Inl err \<Rightarrow> Inl err
           | Inr s2 \<Rightarrow> InferTypesAndCheckConstraints_exitFuncDef ps s2))"

fun walk_funcDefs :: "funcDef list \<Rightarrow> state \<Rightarrow> error + state" where
  "walk_funcDefs [] s = Inr s"
| "walk_funcDefs (d # ds) s =
     (case walk_funcDef d s of Inl err \<Rightarrow> Inl err | Inr s1 \<Rightarrow> walk_funcDefs ds s1)"

definition walk_main :: "stmt list \<Rightarrow> state \<Rightarrow> error + state" where
  "walk_main body s =
     (case InferTypesAndCheckConstraints_enterMain s of
        Inl err \<Rightarrow> Inl err
      | Inr s1 \<Rightarrow>
          (case walk_stmts body s1 of
             Inl err \<Rightarrow> Inl err
           | Inr s2 \<Rightarrow> InferTypesAndCheckConstraints_exitMain s2))"

fun walk_script :: "script \<Rightarrow> state \<Rightarrow> error + state" where
  "walk_script (Script ds body) s =
     (case walk_funcDefs ds s of Inl err \<Rightarrow> Inl err | Inr s1 \<Rightarrow> walk_main body s1)"

text \<open>
  The first pass has handlers for function definitions and the entry block only; the
  nodes below them change nothing.
\<close>

fun define_funcDef :: "funcDef \<Rightarrow> state \<Rightarrow> error + state" where
  "define_funcDef (FuncDef n f ps ty body) s =
     (case DefineScopesAndSymbols_enterFuncDef f ty s of
        Inl err \<Rightarrow> Inl err
      | Inr s1 \<Rightarrow> DefineScopesAndSymbols_exitFuncDef n f (map snd ps) ty s1)"

fun define_funcDefs :: "funcDef list \<Rightarrow> state \<Rightarrow> error + state" where
  "define_funcDefs [] s = Inr s"
| "define_funcDefs (d # ds) s =
     (case define_funcDef d s of Inl err \<Rightarrow> Inl err | Inr s1 \<Rightarrow> define_funcDefs ds s1)"

fun define_script :: "script \<Rightarrow> state \<Rightarrow> error + state" where
  "define_script (Script ds body) s =
     (case define_funcDefs ds s of
        Inl err \<Rightarrow> Inl err
      | Inr s1 \<Rightarrow>
          (case DefineScopesAndSymbols_enterMain s1 of
             Inl err \<Rightarrow> Inl err
           | Inr s2 \<Rightarrow> DefineScopesAndSymbols_exitMain s2))"

text \<open>
  Modelled from the spec: the run of the two passes (the helper that starts them is not
  among the sources). An analysis starts from the global scope alone, an empty
  annotation dictionary and an empty log; the second pass starts when the first has
  ended, and each listener starts with the global scope as its current scope, as the
  constructors say. On an expression alone the first pass has nothing to do.
\<close>

definition global_scope :: Scope where
  "global_scope =
     \<lparr>name = ''$global'', return_type = None, enclosing_scope = None,
      child_scopes = [], symbols = []\<rparr>"

definition initial :: state where
  "initial = \<lparr>scopes = [global_scope], current_scope = Some 0, type_of = Map.empty, error_log = []\<rparr>"

definition analyse_expr :: "expr \<Rightarrow> error + state" where
  "analyse_expr e = walk_expr e initial"

definition analyse_script :: "script \<Rightarrow> error + state" where
  "analyse_script p =
     (case define_script p initial of
        Inl err \<Rightarrow> Inl err
      | Inr s1 \<Rightarrow> walk_script p (s1\<lparr>current_scope := Some 0\<rparr>))"

text \<open>
  Modelled from the spec: the analysis of one function definition alone, the first pass
  over it, then the second pass, each starting at the global scope.
\<close>

definition analyse_funcDef :: "funcDef \<Rightarrow> error + state" where
  "analyse_funcDef d =
     (case define_funcDef d initial of
        Inl err \<Rightarrow> Inl err
      | Inr s1 \<Rightarrow> walk_funcDef d (s1\<lparr>current_scope := Some 0\<rparr>))"

section \<open>Observations of a result\<close>

text \<open>
  What a caller reads off a finished analysis: the annotation of a node, the log, the
  entries of the log for one node, the cursor, and the local symbols of the scope reached from the global scope along a
  path of names. An
  analysis that raised offers none of them.
\<close>

definition inferred :: "error + state \<Rightarrow> nat \<Rightarrow> pyval option" where
  "inferred r n = (case r of Inl e \<Rightarrow> None | Inr s \<Rightarrow> type_of s n)"

definition faults :: "error + state \<Rightarrow> (nat \<times> Category) list option" where
  "faults r = (case r of Inl e \<Rightarrow> None | Inr s \<Rightarrow> Some (error_log s))"

definition faults_at :: "error + state \<Rightarrow> nat \<Rightarrow> Category list option" where
  "faults_at r n =
     (case r of Inl e \<Rightarrow> None | Inr s \<Rightarrow> Some (map snd (filter (\<lambda>p. fst p = n) (error_log s))))"

definition cursor :: "error + state \<Rightarrow> nat option option" where
  "cursor r = (case r of Inl e \<Rightarrow> None | Inr s \<Rightarrow> Some (current_scope s))"

text \<open>The scope reached from scope \<open>a\<close> along a path of child names.\<close>

fun scope_by_path :: "state \<Rightarrow> nat \<Rightarrow> string list \<Rightarrow> Scope option" where
  "scope_by_path s a [] = scope_at s a"
| "scope_by_path s a (nm # path) =
     (case scope_at s a of
        None \<Rightarrow> None
      | Some sc \<Rightarrow>
          (case map_of (child_scopes sc) nm of
             None \<Rightarrow> None
           | Some c \<Rightarrow> scope_by_path s c path))"

definition symbols_of :: "error + state \<Rightarrow> string list \<Rightarrow> (string \<times> stype) list option" where
  "symbols_of r path =
     (case r of
        Inl e \<Rightarrow> None
      | Inr s \<Rightarrow>
          (case scope_by_path s 0 path of
             None \<Rightarrow> None
           | Some sc \<Rightarrow> Some (map (\<lambda>p. (fst p, sym_type (snd p))) (symbols sc))))"

section \<open>The operator tables as the specification words them\<close>

text \<open>
  Additive: both operands Int with \<open>+\<close> or \<open>-\<close> give Int, both String with \<open>+\<close> give
  String. Comparison: (Int, Int) with \<open><\<close>, \<open><=\<close> or \<open>==\<close> and (Bool, Bool) with \<open>==\<close>
  give Bool. Unary: \<open>-\<close> on Int gives Int, \<open>!\<close> on Bool gives Bool. Everything else is
  ERROR.
\<close>

definition spec_AddSub :: "string \<Rightarrow> pyval \<Rightarrow> pyval \<Rightarrow> PrimitiveType" where
  "spec_AddSub op t0 t1 =
     (if t0 = PType (Prim TInt) \<and> t1 = PType (Prim TInt) \<and> (op = ''+'' \<or> op = ''-'') then TInt
      else if t0 = PType (Prim TString) \<and> t1 = PType (Prim TString) \<and> op = ''+'' then TString
      else TERROR)"

definition spec_Compare :: "string \<Rightarrow> pyval \<Rightarrow> pyval \<Rightarrow> PrimitiveType" where
  "spec_Compare op t0 t1 =
     (if t0 = PType (Prim TInt) \<and> t1 = PType (Prim TInt)
         \<and> (op = ''<'' \<or> op = ''<='' \<or> op = ''=='') then TBool
      else if t0 = PType (Prim TBool) \<and> t1 = PType (Prim TBool) \<and> op = ''=='' then TBool
      else TERROR)"

definition spec_Neg :: "string \<Rightarrow> pyval \<Rightarrow> PrimitiveType" where
  "spec_Neg op t =
     (if op = ''-'' \<and> t = PType (Prim TInt) then TInt
      else if op = ''!'' \<and> t = PType (Prim TBool) then TBool
      else TERROR)"

section \<open>Nodes and references of a tree\<close>










section \<open>Invariants of the second pass\<close>





section \<open>Binary and unary operators\<close>

lemmas handler_defs =
  type_is_def lookup_type_def py_and_def py_if_def py_not_def set_type_def log_add_def

lemmas analysis_defs =
  analyse_expr_def initial_def global_scope_def inferred_def faults_def faults_at_def
  exitIntLiteral_def exitStringLiteral_def exitBoolLiteral_def

lemma exitAddSub_table:
  assumes "type_of s e0 = Some t0" and "type_of s e1 = Some t1"
  shows "\<exists>s'. exitAddSub ctx op e0 e1 s = Inr s'
           \<and> type_of s' ctx = Some (PType (Prim (spec_AddSub op t0 t1)))
           \<and> error_log s' = error_log s @
                (if spec_AddSub op t0 t1 = TERROR then [(ctx, INVALID_BINARY_OP)] else [])"
  using assms by (auto simp: exitAddSub_def spec_AddSub_def handler_defs)

lemma exitCompare_table:
  assumes "type_of s e0 = Some t0" and "type_of s e1 = Some t1"
  shows "\<exists>s'. exitCompare ctx op e0 e1 s = Inr s'
           \<and> type_of s' ctx = Some (PType (Prim (spec_Compare op t0 t1)))
           \<and> error_log s' = error_log s @
                (if spec_Compare op t0 t1 = TERROR then [(ctx, INVALID_BINARY_OP)] else [])"
  using assms by (auto simp: exitCompare_def spec_Compare_def handler_defs)

lemma five_plus_three:
  "inferred (analyse_expr (AddSub 0 ''+'' (IntLiteral 1 ''5'') (IntLiteral 2 ''3''))) 0
     = Some (PType (Prim TInt))
   \<and> faults (analyse_expr (AddSub 0 ''+'' (IntLiteral 1 ''5'') (IntLiteral 2 ''3''))) = Some []"
  by (simp add: analysis_defs exitAddSub_def handler_defs)

lemma hello_plus_world:
  "inferred (analyse_expr (AddSub 0 ''+'' (StringLiteral 1 ''hello'') (StringLiteral 2 ''world''))) 0
     = Some (PType (Prim TString))
   \<and> faults (analyse_expr (AddSub 0 ''+'' (StringLiteral 1 ''hello'') (StringLiteral 2 ''world'')))
     = Some []"
  by (simp add: analysis_defs exitAddSub_def handler_defs)

lemma five_le_three:
  "inferred (analyse_expr (Compare 0 ''<='' (IntLiteral 1 ''5'') (IntLiteral 2 ''3''))) 0
     = Some (PType (Prim TBool))
   \<and> faults (analyse_expr (Compare 0 ''<='' (IntLiteral 1 ''5'') (IntLiteral 2 ''3''))) = Some []"
  by (simp add: analysis_defs exitCompare_def handler_defs)

lemma true_minus_five:
  "inferred (analyse_expr (AddSub 0 ''-'' (BoolLiteral 1 ''true'') (IntLiteral 2 ''5''))) 0
     = Some (PType (Prim TERROR))
   \<and> faults (analyse_expr (AddSub 0 ''-'' (BoolLiteral 1 ''true'') (IntLiteral 2 ''5'')))
     = Some [(0, INVALID_BINARY_OP)]"
  by (simp add: analysis_defs exitAddSub_def handler_defs)

lemma false_less_three:
  "inferred (analyse_expr (Compare 0 ''<'' (BoolLiteral 1 ''false'') (IntLiteral 2 ''3''))) 0
     = Some (PType (Prim TERROR))
   \<and> faults (analyse_expr (Compare 0 ''<'' (BoolLiteral 1 ''false'') (IntLiteral 2 ''3'')))
     = Some [(0, INVALID_BINARY_OP)]"
  by (simp add: analysis_defs exitCompare_def handler_defs)

text \<open>
  C8. When both operands of an additive or comparison node have an annotation, the exit
  handler annotates the node with the type the specification's table gives for the
  operator and the two operand annotations, and appends one InvalidBinaryOp fault for
  the node exactly when that type is ERROR; nothing else is logged. On the five
  expressions of the specification: \<open>5+3\<close> is Int and \<open>"hello"+"world"\<close> is String and
  \<open>5<=3\<close> is Bool, each with an empty log; \<open>true-5\<close> and \<open>false<3\<close> are ERROR with one
  InvalidBinaryOp fault each.
\<close>

theorem binary_operator_table:
  assumes "type_of s e0 = Some t0" and "type_of s e1 = Some t1"
  shows
    "(\<exists>s'. exitAddSub ctx op e0 e1 s = Inr s'
         \<and> type_of s' ctx = Some (PType (Prim (spec_AddSub op t0 t1)))
         \<and> error_log s' = error_log s @
              (if spec_AddSub op t0 t1 = TERROR then [(ctx, INVALID_BINARY_OP)] else []))
     \<and> (\<exists>s'. exitCompare ctx op e0 e1 s = Inr s'
         \<and> type_of s' ctx = Some (PType (Prim (spec_Compare op t0 t1)))
         \<and> error_log s' = error_log s @
              (if spec_Compare op t0 t1 = TERROR then [(ctx, INVALID_BINARY_OP)] else []))
     \<and> inferred (analyse_expr (AddSub 0 ''+'' (IntLiteral 1 ''5'') (IntLiteral 2 ''3''))) 0
         = Some (PType (Prim TInt))
     \<and> faults (analyse_expr (AddSub 0 ''+'' (IntLiteral 1 ''5'') (IntLiteral 2 ''3''))) = Some []
     \<and> inferred (analyse_expr (AddSub 0 ''+'' (StringLiteral 1 ''hello'') (StringLiteral 2 ''world''))) 0
         = Some (PType (Prim TString))
     \<and> faults (analyse_expr (AddSub 0 ''+'' (StringLiteral 1 ''hello'') (StringLiteral 2 ''world'')))
         = Some []
     \<and> inferred (analyse_expr (Compare 0 ''<='' (IntLiteral 1 ''5'') (IntLiteral 2 ''3''))) 0
         = Some (PType (Prim TBool))
     \<and> faults (analyse_expr (Compare 0 ''<='' (IntLiteral 1 ''5'') (IntLiteral 2 ''3''))) = Some []
     \<and> inferred (analyse_expr (AddSub 0 ''-'' (BoolLiteral 1 ''true'') (IntLiteral 2 ''5''))) 0
         = Some (PType (Prim TERROR))
     \<and> faults (analyse_expr (AddSub 0 ''-'' (BoolLiteral 1 ''true'') (IntLiteral 2 ''5'')))
         = Some [(0, INVALID_BINARY_OP)]
     \<and> inferred (analyse_expr (Compare 0 ''<'' (BoolLiteral 1 ''false'') (IntLiteral 2 ''3''))) 0
         = Some (PType (Prim TERROR))
     \<and> faults (analyse_expr (Compare 0 ''<'' (BoolLiteral 1 ''false'') (IntLiteral 2 ''3'')))
         = Some [(0, INVALID_BINARY_OP)]"
  using exitAddSub_table [OF assms] exitCompare_table [OF assms]
    five_plus_three hello_plus_world five_le_three true_minus_five false_less_three
  by blast

theorem binary_operator_table_witness:
  "(\<exists>s'. exitAddSub 0 ''+'' 1 2
            (set_type 2 (PType (Prim TString)) (set_type 1 (PType (Prim TString)) initial)) = Inr s'
        \<and> type_of s' 0 = Some (PType (Prim TString)) \<and> error_log s' = [])
   \<and> (\<exists>s'. exitCompare 0 ''+'' 1 2
            (set_type 2 (PType (Prim TString)) (set_type 1 (PType (Prim TString)) initial)) = Inr s'
        \<and> type_of s' 0 = Some (PType (Prim TERROR)) \<and> error_log s' = [(0, INVALID_BINARY_OP)])"
proof -
  let ?s = "set_type 2 (PType (Prim TString)) (set_type 1 (PType (Prim TString)) initial)"
  have h0: "type_of ?s 1 = Some (PType (Prim TString))"
    by (simp add: set_type_def)
  have h1: "type_of ?s 2 = Some (PType (Prim TString))"
    by (simp add: set_type_def)
  have log: "error_log ?s = []"
    by (simp add: set_type_def initial_def)
  show ?thesis
    using binary_operator_table [OF h0 h1, of 0 "''+''"] log
    by (simp add: spec_AddSub_def spec_Compare_def)
qed

lemma exitNeg_table:
  assumes "type_of s e = Some t"
  shows "\<exists>s'. exitNeg ctx op e s = Inr s'
           \<and> type_of s' ctx = Some (PType (Prim (spec_Neg op t)))
           \<and> error_log s' = error_log s @
                (if spec_Neg op t = TERROR then [(ctx, INVALID_NEGATION)] else [])"
  using assms by (auto simp: exitNeg_def spec_Neg_def handler_defs)

lemma not_37:
  "inferred (analyse_expr (Neg 0 ''!'' (IntLiteral 1 ''37''))) 0 = Some (PType (Prim TERROR))
   \<and> faults (analyse_expr (Neg 0 ''!'' (IntLiteral 1 ''37''))) = Some [(0, INVALID_NEGATION)]
   \<and> faults_at (analyse_expr (Neg 0 ''!'' (IntLiteral 1 ''37''))) 0 = Some [INVALID_NEGATION]"
  by (simp add: analysis_defs exitNeg_def handler_defs)

lemma not_not_37:
  "inferred (analyse_expr (Neg 0 ''!'' (Neg 1 ''!'' (IntLiteral 2 ''37'')))) 0
     = Some (PType (Prim TERROR))
   \<and> faults (analyse_expr (Neg 0 ''!'' (Neg 1 ''!'' (IntLiteral 2 ''37''))))
     = Some [(1, INVALID_NEGATION), (0, INVALID_NEGATION)]
   \<and> faults_at (analyse_expr (Neg 0 ''!'' (Neg 1 ''!'' (IntLiteral 2 ''37'')))) 0
     = Some [INVALID_NEGATION]"
  by (simp add: analysis_defs exitNeg_def handler_defs)

text \<open>
  C9. When the operand of a unary node has an annotation, the exit handler annotates the
  node Int for \<open>-\<close> on Int, Bool for \<open>!\<close> on Bool and ERROR for everything else, and
  appends one InvalidNegation fault for the node exactly in the last case. The whole
  expression \<open>!37\<close> (node 0) is ERROR and the log is the one InvalidNegation fault for it.
  The whole expression \<open>!!37\<close> (node 0) is ERROR and the log holds exactly one
  InvalidNegation fault for it; before that entry stands the fault for its operand
  \<open>!37\<close> (node 1), a node of its own.
\<close>

theorem negation_table:
  assumes "type_of s e = Some t"
  shows
    "(\<exists>s'. exitNeg ctx op e s = Inr s'
         \<and> type_of s' ctx = Some (PType (Prim (spec_Neg op t)))
         \<and> error_log s' = error_log s @
              (if spec_Neg op t = TERROR then [(ctx, INVALID_NEGATION)] else []))
     \<and> inferred (analyse_expr (Neg 0 ''!'' (IntLiteral 1 ''37''))) 0 = Some (PType (Prim TERROR))
     \<and> faults (analyse_expr (Neg 0 ''!'' (IntLiteral 1 ''37''))) = Some [(0, INVALID_NEGATION)]
     \<and> faults_at (analyse_expr (Neg 0 ''!'' (IntLiteral 1 ''37''))) 0 = Some [INVALID_NEGATION]
     \<and> inferred (analyse_expr (Neg 0 ''!'' (Neg 1 ''!'' (IntLiteral 2 ''37'')))) 0
         = Some (PType (Prim TERROR))
     \<and> faults (analyse_expr (Neg 0 ''!'' (Neg 1 ''!'' (IntLiteral 2 ''37''))))
         = Some [(1, INVALID_NEGATION), (0, INVALID_NEGATION)]
     \<and> faults_at (analyse_expr (Neg 0 ''!'' (Neg 1 ''!'' (IntLiteral 2 ''37'')))) 0
         = Some [INVALID_NEGATION]"
  using exitNeg_table [OF assms] not_37 not_not_37
  by blast

theorem negation_table_witness:
  "\<exists>s'. exitNeg 0 ''-'' 1 (set_type 1 (PType (Prim TInt)) initial) = Inr s'
       \<and> type_of s' 0 = Some (PType (Prim TInt)) \<and> error_log s' = []"
proof -
  let ?s = "set_type 1 (PType (Prim TInt)) initial"
  have h: "type_of ?s 1 = Some (PType (Prim TInt))"
    by (simp add: set_type_def)
  have log: "error_log ?s = []"
    by (simp add: set_type_def initial_def)
  show ?thesis
    using negation_table [OF h, of 0 "''-''"] log
    by (simp add: spec_Neg_def)
qed

section \<open>Statements, calls and scopes\<close>

lemmas scope_defs =
  deref_def scope_at_def set_scope_def create_child_scope_def scope_define_def
  resolve_locally_def child_scope_named_def parameters_def define_current_def
  define_enclosing_def enter_child_def enter_named_def

lemmas pass_defs =
  analyse_script_def analyse_funcDef_def walk_main_def walk_opt_def
  DefineScopesAndSymbols_enterMain_def DefineScopesAndSymbols_exitMain_def
  DefineScopesAndSymbols_enterFuncDef_def DefineScopesAndSymbols_exitFuncDef_def
  InferTypesAndCheckConstraints_enterMain_def InferTypesAndCheckConstraints_exitMain_def
  InferTypesAndCheckConstraints_enterFuncDef_def InferTypesAndCheckConstraints_exitFuncDef_def
  cursor_def symbols_of_def

lemma exitReturn_with_expression:
  assumes "current_scope s = Some a" and "scope_at s a = Some sc" and "type_of s e = Some v"
  shows "exitReturn ctx (Some e) s
           = Inr (s\<lparr>error_log := error_log s @ [(ctx, INVALID_RETURN)],
                    current_scope := enclosing_scope sc\<rparr>)"
  using assms by (auto simp: exitReturn_def deref_def handler_defs)

text \<open>
  C1 (the code departs from it). In \<open>func f() -> Int { return 5 }\<close> the return carries an
  expression of the declared type Int, and the analysis of the definition logs one
  InvalidReturn fault for the return statement (node 1).
\<close>

theorem return_of_declared_type_faulted:
  "faults (analyse_funcDef
             (FuncDef 0 ''f'' [] (Some ''Int'') [Return 1 (Some (IntLiteral 2 ''5''))]))
     = Some [(1, INVALID_RETURN)]"
  by (simp add: analysis_defs pass_defs scope_defs exitReturn_def handler_defs Let_def)

text \<open>
  C2 (the code departs from it). The script \<open>print 5\<close> prints an operand of type Int:
  the analysis logs an UnprintableExpression fault for the print statement (node 0) and
  annotates it ERROR.
\<close>

theorem print_of_Int_faulted:
  "faults (analyse_script (Script [] [Print 0 (IntLiteral 1 ''5'')]))
     = Some [(0, UNPRINTABLE_EXPRESSION)]
   \<and> inferred (analyse_script (Script [] [Print 0 (IntLiteral 1 ''5'')])) 1
     = Some (PType (Prim TInt))
   \<and> inferred (analyse_script (Script [] [Print 0 (IntLiteral 1 ''5'')])) 0
     = Some (PType (Prim TERROR))"
  by (simp add: analysis_defs pass_defs scope_defs exitPrint_def truthy_def handler_defs Let_def)

lemma funcCall_loop_falls_through:
  "funcCall_loop ctx f es cur cs s = Inr (b, s') \<Longrightarrow> \<not> b"
proof (induction cs arbitrary: s)
  case Nil
  then show ?case by simp
next
  case (Cons c cs)
  then show ?case
    by (auto simp: Let_def split: option.splits if_splits sum.splits)
qed

lemma exitFuncCall_raises: "\<exists>err. exitFuncCall ctx f es s = Inl err"
proof (cases "exitFuncCall ctx f es s")
  case (Inl err)
  then show ?thesis by blast
next
  case (Inr s')
  then show ?thesis
    by (auto simp: exitFuncCall_def split: sum.splits prod.splits if_splits
             dest: funcCall_loop_falls_through)
qed

text \<open>
  C3 (the code departs from it). The handler of a function call never returns: on every
  node and every state it raises, so it logs no InvalidCall fault and annotates no call
  node. In the script \<open>func f(a : Int) -> Int { } f(true)\<close>, a call with an argument of
  the wrong type, the analysis ends in an AttributeError.
\<close>

theorem function_call_raises:
  "(\<exists>err. exitFuncCall ctx f es s = Inl err)
   \<and> analyse_script
        (Script [FuncDef 0 ''f'' [(''a'', ''Int'')] (Some ''Int'') []]
                [FuncCallStmt 1 ''f'' [BoolLiteral 2 ''true'']])
     = Inl AttributeError"
proof -
  have "analyse_script
          (Script [FuncDef 0 ''f'' [(''a'', ''Int'')] (Some ''Int'') []]
                  [FuncCallStmt 1 ''f'' [BoolLiteral 2 ''true'']])
        = Inl AttributeError"
    by (simp add: analysis_defs pass_defs scope_defs exitFuncCall_def handler_defs Let_def)
  then show ?thesis
    using exitFuncCall_raises by blast
qed

lemma exitReturn_cursor:
  assumes "exitReturn ctx eo s = Inr s'" and "current_scope s = Some a"
    and "scope_at s a = Some sc"
  shows "current_scope s' = enclosing_scope sc"
  using assms
  by (auto simp: exitReturn_def deref_def handler_defs split: option.splits sum.splits if_splits)

text \<open>
  C4 (the code departs from it). In the script \<open>var x : Int  return  x = 5\<close> the return
  statement moves the cursor from the entry block to the global scope: the assignment
  after it (node 2) no longer finds \<open>x\<close> and is logged as UndefinedName, and the exit of
  the entry block leaves the cursor at \<open>None\<close>. Without the return statement the log is
  empty and the walk ends at the global scope. In the script
  \<open>func f() -> Int { return 5 }\<close> the exit of the definition steps to the enclosing scope a
  second time, and entering the entry block raises an AttributeError on the cursor
  \<open>None\<close>.
\<close>

theorem return_moves_cursor:
  "faults (analyse_script
             (Script [] [VarDec 0 ''x'' ''Int'' None, Return 1 None,
                         Assignment 2 ''x'' (IntLiteral 3 ''5'')]))
     = Some [(2, UNDEFINED_NAME)]
   \<and> cursor (analyse_script
                (Script [] [VarDec 0 ''x'' ''Int'' None, Return 1 None,
                            Assignment 2 ''x'' (IntLiteral 3 ''5'')]))
     = Some None
   \<and> faults (analyse_script
                (Script [] [VarDec 0 ''x'' ''Int'' None, Assignment 2 ''x'' (IntLiteral 3 ''5'')]))
     = Some []
   \<and> cursor (analyse_script
                (Script [] [VarDec 0 ''x'' ''Int'' None, Assignment 2 ''x'' (IntLiteral 3 ''5'')]))
     = Some (Some 0)
   \<and> analyse_script
        (Script [FuncDef 0 ''f'' [] (Some ''Int'') [Return 1 (Some (IntLiteral 2 ''5''))]] [])
     = Inl AttributeError"
  by (simp add: analysis_defs pass_defs scope_defs exitReturn_def exitVarDec_def
        define_and_check_def check_initialiser_def exitAssignment_def handler_defs Let_def)

text \<open>
  C5 (the code departs from it). After the first pass over \<open>func f() { }\<close>, a definition
  without a return type, the global scope has no symbol and the function type of \<open>f\<close>
  is a symbol of the body scope of \<open>f\<close> itself. After the first pass over
  \<open>func g() -> Int { }\<close> the function type of \<open>g\<close> is a symbol of the global scope.
\<close>

theorem function_without_return_type_defined_in_body:
  "symbols_of (define_script (Script [FuncDef 0 ''f'' [] None []] []) initial) [] = Some []
   \<and> symbols_of (define_script (Script [FuncDef 0 ''f'' [] None []] []) initial) [''f'']
     = Some [(''f'', Func (FunctionType [] TVoid))]
   \<and> symbols_of (define_script (Script [FuncDef 0 ''g'' [] (Some ''Int'') []] []) initial) []
     = Some [(''g'', Func (FunctionType [] TInt))]
   \<and> symbols_of (define_script (Script [FuncDef 0 ''g'' [] (Some ''Int'') []] []) initial) [''g'']
     = Some []"
  by (simp add: analysis_defs pass_defs scope_defs Let_def)

text \<open>
  C6 (the code departs from it). In the script \<open>var x : Int  print x\<close> the local lookup of
  the reference \<open>x\<close> (node 2) finds the symbol declared Int, and the annotation of the
  node is that symbol object, not the type Int.
\<close>

theorem reference_annotated_with_symbol:
  "inferred (analyse_script (Script [] [VarDec 0 ''x'' ''Int'' None, Print 1 (Variable 2 ''x'')])) 2
     = Some (PSym \<lparr>sym_name = ''x'', sym_type = Prim TInt, is_param = False, sym_index = 0\<rparr>)"
  by (simp add: analysis_defs pass_defs scope_defs exitVarDec_def define_and_check_def
        check_initialiser_def exitVariable_def exitPrint_def truthy_def handler_defs Let_def)

lemma exitVarDec_unknown_type:
  assumes "current_scope s = Some a" and "scope_at s a = Some sc"
    and "resolve_locally sc x = None"
    and "ty \<noteq> ''Int''" and "ty \<noteq> ''String''" and "ty \<noteq> ''Bool''"
    and "type_of s ctx = None"
  shows "exitVarDec ctx x ty eo s = Inl KeyError"
  using assms by (simp add: exitVarDec_def deref_def lookup_type_def)

text \<open>
  C7 (the code departs from it). The script \<open>var x : Float\<close> declares a variable of a type
  that is none of Int, Bool, String: the analysis raises a KeyError, so it logs nothing
  and does not complete.
\<close>

theorem unknown_type_name_raises:
  "analyse_script (Script [] [VarDec 0 ''x'' ''Float'' None]) = Inl KeyError"
  by (simp add: analysis_defs pass_defs scope_defs exitVarDec_def handler_defs Let_def)

section \<open>References to a parameter in the body of its function\<close>























































end
